theory Spec2Isabelle
  imports Main "HOL-Library.Code_Target_Nat"
begin

section \<open>JavaScript values\<close>

text \<open>
  The functions of \<^verbatim>\<open>src/utils.js\<close> take and return plain JavaScript values and
  decide what to do by inspecting them at run time (\<^verbatim>\<open>_.isArray\<close>, \<^verbatim>\<open>Number\<close>,
  \<^verbatim>\<open>String\<close>, truthiness), so the embedding works on a datatype of such values.

  A number is one of the three special values or a finite double. A finite double is
  named by the decimal that \<^verbatim>\<open>Number.prototype.toString\<close> prints for it: a sign, the
  digits \<open>s\<close> and a power of ten, standing for \<open>s * 10 ^ e\<close>, the shortest decimal that
  reads back as this double. (A triple that is no double's shortest decimal names no
  value; \<open>mk_finite\<close> below rounds any decimal to the double it reads as.)

  A string is a list of code units below 256. An array has no holes; where an assignment
  past the end of an array leaves some, they are written as the \<^verbatim>\<open>undefined\<close> that every
  read of them gives. An object is the list of its own enumerable properties in
  enumeration order, with distinct names; its prototype is \<^verbatim>\<open>Object.prototype\<close>, and
  there are no function values, so a property is never callable.
\<close>

datatype number = NaN | Infinity | NegInfinity | Finite bool nat int

datatype jsval =
    Undefined
  | Null
  | Bool bool
  | Num number
  | Str string
  | Arr "jsval list"
  | Obj "(string \<times> jsval) list"

text \<open>
  The errors thrown. The three that the source throws itself are \<^verbatim>\<open>TypeError\<close>s told
  apart by their message:
  \<^item> \<open>TypeMismatch\<close>: 'Expected homogenous array of numbers or strings'
  \<^item> \<open>UnsupportedType\<close>: 'Object is not serializable to a dynamo data type'
  \<^item> \<open>MissingArgument\<close>: 'Cannot call convert_to_dynamo() with no arguments'

  The others are thrown by the runtime:
  \<^item> \<open>NullishProperty\<close>: the \<^verbatim>\<open>TypeError\<close> of reading a property of \<^verbatim>\<open>null\<close> or
    \<^verbatim>\<open>undefined\<close>;
  \<^item> \<open>NotAFunction\<close>: the \<^verbatim>\<open>TypeError\<close> of calling a value that is no function;
  \<^item> \<open>NotPrimitive\<close>: the \<^verbatim>\<open>TypeError\<close> 'Cannot convert object to primitive value';
  \<^item> \<open>InvalidArrayLength\<close>: the \<^verbatim>\<open>RangeError\<close> of \<^verbatim>\<open>Array(n)\<close> for \<open>n\<close> above
    \<open>2 ^ 32 - 1\<close>.
\<close>

datatype error =
    TypeMismatch
  | UnsupportedType
  | MissingArgument
  | NullishProperty
  | NotAFunction
  | NotPrimitive
  | InvalidArrayLength

subsection \<open>Numbers and their text\<close>

text \<open>The normal form of a decimal: no trailing zero digit, and zero has exponent 0.\<close>

fun strip_zeros :: "nat \<Rightarrow> int \<Rightarrow> nat \<times> int" where
  "strip_zeros s e =
     (if s = 0 then (0, 0)
      else if s mod 10 = 0 then strip_zeros (s div 10) (e + 1)
      else (s, e))"

declare strip_zeros.simps [simp del]

definition digit_char :: "nat \<Rightarrow> char" where
  "digit_char d = ''0123456789'' ! d"

fun decimal :: "nat \<Rightarrow> string" where
  "decimal n = (if n < 10 then [digit_char n] else decimal (n div 10) @ [digit_char (n mod 10)])"

declare decimal.simps [simp del]

text \<open>
  \<^verbatim>\<open>Number.prototype.toString()\<close> (radix 10), ECMAScript \<^verbatim>\<open>Number::toString\<close>: with
  \<open>k\<close> digits and the decimal point after the \<open>n\<close>-th digit, plain digits for
  \<open>k \<le> n \<le> 21\<close>, a point inside for \<open>0 < n \<le> 21\<close>, leading \<open>0.\<close> for
  \<open>-6 < n \<le> 0\<close>, and exponent notation otherwise.
\<close>

definition finite_text :: "nat \<Rightarrow> int \<Rightarrow> string" where
  "finite_text s e =
     (let ds = decimal s; k = int (length ds); n = k + e in
      if k \<le> n \<and> n \<le> 21 then ds @ replicate (nat (n - k)) (CHR ''0'')
      else if 0 < n \<and> n \<le> 21 then take (nat n) ds @ ''.'' @ drop (nat n) ds
      else if -6 < n \<and> n \<le> 0 then ''0.'' @ replicate (nat (- n)) (CHR ''0'') @ ds
      else (if k = 1 then ds else take 1 ds @ ''.'' @ drop 1 ds)
           @ ''e'' @ (if n - 1 < 0 then ''-'' else ''+'') @ decimal (nat \<bar>n - 1\<bar>))"

fun Number_toString :: "number \<Rightarrow> string" where
  "Number_toString NaN = ''NaN''"
| "Number_toString Infinity = ''Infinity''"
| "Number_toString NegInfinity = ''-Infinity''"
| "Number_toString (Finite neg s e) =
     (case strip_zeros s e of (s', e') \<Rightarrow>
        if s' = 0 then ''0'' else (if neg then ''-'' else '''') @ finite_text s' e')"

subsection \<open>Rounding a decimal to a double\<close>

text \<open>
  A positive double is \<open>m * 2 ^ q\<close> with \<open>m < 2 ^ 53\<close> and \<open>-1074 \<le> q \<le> 971\<close>, where
  \<open>2 ^ 52 \<le> m\<close> unless \<open>q = -1074\<close>. \<open>nearest_double num den\<close> is the double nearest to
  the fraction \<open>num / den\<close>, a tie going to the even \<open>m\<close> (IEEE 754 round to nearest,
  ties to even); \<open>m = 0\<close> is the underflow to zero and \<open>None\<close> the overflow to
  \<^verbatim>\<open>Infinity\<close>.
\<close>

fun bit_length :: "nat \<Rightarrow> nat" where
  "bit_length n = (if n = 0 then 0 else Suc (bit_length (n div 2)))"

declare bit_length.simps [simp del]

text \<open>The integer part of the binary logarithm of \<open>num / den\<close>.\<close>

definition binary_exponent :: "nat \<Rightarrow> nat \<Rightarrow> int" where
  "binary_exponent num den =
     (let t = int (bit_length num) - int (bit_length den) in
      if den * 2 ^ nat t \<le> num * 2 ^ nat (- t) then t else t - 1)"

definition round_half_even :: "nat \<Rightarrow> nat \<Rightarrow> nat" where
  "round_half_even num den =
     (let m = num div den; r = num mod den in
      if den < 2 * r \<or> (2 * r = den \<and> odd m) then m + 1 else m)"

definition nearest_double :: "nat \<Rightarrow> nat \<Rightarrow> (nat \<times> int) option" where
  "nearest_double num den =
     (let q = max (binary_exponent num den - 52) (- 1074);
          m = round_half_even (num * 2 ^ nat (- q)) (den * 2 ^ nat q);
          q' = (if m = 2 ^ 53 then q + 1 else q);
          m' = (if m = 2 ^ 53 then 2 ^ 52 else m)
      in if 971 < q' then None else Some (m', q'))"

definition decimal_to_double :: "nat \<Rightarrow> int \<Rightarrow> (nat \<times> int) option" where
  "decimal_to_double s e = nearest_double (s * 10 ^ nat e) (10 ^ nat (- e))"

text \<open>
  The shortest decimal of the double \<open>m * 2 ^ q\<close>, as \<^verbatim>\<open>Number::toString\<close> chooses it:
  the least number \<open>k\<close> of digits for which a decimal of \<open>k\<close> digits reads back as this
  double; of two such decimals the one nearer to the double, and the even one when they
  are equally near. Only the two decimals of \<open>k\<close> digits next to the double can read back
  as it. Seventeen digits always suffice.
\<close>

text \<open>The \<open>n\<close> with \<open>10 ^ (n - 1) \<le> num / den < 10 ^ n\<close>.\<close>

definition decimal_exponent :: "nat \<Rightarrow> nat \<Rightarrow> int" where
  "decimal_exponent num den =
     (let t = int (length (decimal num)) - int (length (decimal den)) in
      if den * 10 ^ nat t \<le> num * 10 ^ nat (- t) then t + 1 else t)"

definition shortest_at :: "nat \<Rightarrow> int \<Rightarrow> nat \<Rightarrow> (nat \<times> int) option" where
  "shortest_at m q k =
     (let num = m * 2 ^ nat q; den = 2 ^ nat (- q);
          p = decimal_exponent num den - int k;
          lo = (num * 10 ^ nat (- p)) div (den * 10 ^ nat p);
          r = (num * 10 ^ nat (- p)) mod (den * 10 ^ nat p);
          hi = lo + 1;
          ok_lo = (0 < lo \<and> decimal_to_double lo p = Some (m, q));
          ok_hi = (decimal_to_double hi p = Some (m, q))
      in if ok_lo \<and> ok_hi then
           Some (if 2 * r < den * 10 ^ nat p \<or> (2 * r = den * 10 ^ nat p \<and> even lo) then lo else hi, p)
         else if ok_lo then Some (lo, p)
         else if ok_hi then Some (hi, p)
         else None)"

definition shortest_decimal :: "nat \<Rightarrow> int \<Rightarrow> nat \<times> int" where
  "shortest_decimal m q =
     (case List.map_filter (shortest_at m q) [1..<18] of
        [] \<Rightarrow> (0, 0)
      | (s, p) # rest \<Rightarrow> strip_zeros s p)"

text \<open>The number that the decimal \<open>s * 10 ^ e\<close> with the given sign reads as.\<close>

definition mk_finite :: "bool \<Rightarrow> nat \<Rightarrow> int \<Rightarrow> number" where
  "mk_finite neg s e =
     (if s = 0 then Finite neg 0 0
      else (case decimal_to_double s e of
              None \<Rightarrow> (if neg then NegInfinity else Infinity)
            | Some (m, q) \<Rightarrow>
                if m = 0 then Finite neg 0 0
                else (case shortest_decimal m q of (s', e') \<Rightarrow> Finite neg s' e')))"

text \<open>
  A length, of an array or a string. It is below \<open>2 ^ 53\<close>, where every natural number
  is a double and its shortest decimal is its digits without the trailing zeros.
\<close>

definition of_nat_number :: "nat \<Rightarrow> number" where
  "of_nat_number n = (case strip_zeros n 0 of (s, e) \<Rightarrow> Finite False s e)"

subsection \<open>Reading a number from text\<close>

definition digit_value :: "char \<Rightarrow> nat option" where
  "digit_value = map_of
     [(CHR ''0'', 0), (CHR ''1'', 1), (CHR ''2'', 2), (CHR ''3'', 3), (CHR ''4'', 4),
      (CHR ''5'', 5), (CHR ''6'', 6), (CHR ''7'', 7), (CHR ''8'', 8), (CHR ''9'', 9),
      (CHR ''a'', 10), (CHR ''b'', 11), (CHR ''c'', 12), (CHR ''d'', 13), (CHR ''e'', 14),
      (CHR ''f'', 15), (CHR ''A'', 10), (CHR ''B'', 11), (CHR ''C'', 12), (CHR ''D'', 13),
      (CHR ''E'', 14), (CHR ''F'', 15)]"

definition is_digit :: "nat \<Rightarrow> char \<Rightarrow> bool" where
  "is_digit radix c = (case digit_value c of None \<Rightarrow> False | Some d \<Rightarrow> d < radix)"

definition digits_value :: "nat \<Rightarrow> string \<Rightarrow> nat" where
  "digits_value radix ds =
     foldl (\<lambda>a c. a * radix + (case digit_value c of None \<Rightarrow> 0 | Some d \<Rightarrow> d)) 0 ds"

text \<open>The white space and line terminators that fit in one code unit below 256.\<close>

definition is_space :: "char \<Rightarrow> bool" where
  "is_space c = (c \<in> set [CHR 0x09, CHR 0x0A, CHR 0x0B, CHR 0x0C, CHR 0x0D, CHR '' '', CHR 0xA0])"

definition trim_start :: "string \<Rightarrow> string" where
  "trim_start s = dropWhile is_space s"

definition trim :: "string \<Rightarrow> string" where
  "trim s = rev (dropWhile is_space (rev (dropWhile is_space s)))"

definition take_sign :: "string \<Rightarrow> bool \<times> string" where
  "take_sign s =
     (case s of
        [] \<Rightarrow> (False, s)
      | c # t \<Rightarrow> if c = CHR ''-'' then (True, t) else if c = CHR ''+'' then (False, t) else (False, s))"

text \<open>An \<^verbatim>\<open>ExponentPart\<close> at the head of the text, if there is one: its value and the rest.\<close>

definition exponent_part :: "string \<Rightarrow> int \<times> string" where
  "exponent_part s =
     (case s of
        [] \<Rightarrow> (0, s)
      | c # t \<Rightarrow>
          if c = CHR ''e'' \<or> c = CHR ''E'' then
            (case take_sign t of (neg, u) \<Rightarrow>
               let ds = takeWhile (is_digit 10) u in
               if ds = [] then (0, s)
               else ((if neg then - int (digits_value 10 ds) else int (digits_value 10 ds)),
                     dropWhile (is_digit 10) u))
          else (0, s))"

text \<open>
  The longest prefix of the text that is a \<^verbatim>\<open>StrDecimalLiteral\<close> (a sign, then
  \<^verbatim>\<open>Infinity\<close> or digits with an optional fraction and exponent): its value and the
  rest of the text, or \<open>None\<close> when no prefix is one.
\<close>

definition str_decimal_literal :: "string \<Rightarrow> (number \<times> string) option" where
  "str_decimal_literal s =
     (case take_sign s of (neg, u) \<Rightarrow>
        if take 8 u = ''Infinity'' then Some (if neg then NegInfinity else Infinity, drop 8 u)
        else
          let ip = takeWhile (is_digit 10) u;
              r1 = dropWhile (is_digit 10) u;
              dot = (case r1 of
                       [] \<Rightarrow> False
                     | c # t \<Rightarrow> c = CHR ''.'' \<and> (ip \<noteq> [] \<or> takeWhile (is_digit 10) t \<noteq> []));
              fp = (if dot then takeWhile (is_digit 10) (tl r1) else []);
              r2 = (if dot then dropWhile (is_digit 10) (tl r1) else r1)
          in if ip = [] \<and> fp = [] then None
             else (case exponent_part r2 of (ex, r3) \<Rightarrow>
                     Some (mk_finite neg (digits_value 10 (ip @ fp)) (ex - int (length fp)), r3)))"

text \<open>A \<^verbatim>\<open>NonDecimalIntegerLiteral\<close>: \<^verbatim>\<open>0x\<close>, \<^verbatim>\<open>0o\<close> or \<^verbatim>\<open>0b\<close> and at least one digit.\<close>

definition non_decimal_literal :: "string \<Rightarrow> nat option" where
  "non_decimal_literal s =
     (case s of
        c0 # c1 # ds \<Rightarrow>
          let radix = (if c1 = CHR ''x'' \<or> c1 = CHR ''X'' then 16
                       else if c1 = CHR ''o'' \<or> c1 = CHR ''O'' then 8
                       else if c1 = CHR ''b'' \<or> c1 = CHR ''B'' then 2 else 0)
          in if c0 = CHR ''0'' \<and> ds \<noteq> [] \<and> list_all (is_digit radix) ds
             then Some (digits_value radix ds) else None
      | _ \<Rightarrow> None)"

text \<open>
  \<^verbatim>\<open>StringToNumber\<close>: the whole trimmed text is a numeric literal, or the result is NaN.
  The value of the literal is rounded exactly, whatever the number of its digits.
\<close>

definition StringToNumber :: "string \<Rightarrow> number" where
  "StringToNumber s =
     (let t = trim s in
      if t = [] then Finite False 0 0
      else (case non_decimal_literal t of
              Some n \<Rightarrow> mk_finite False n 0
            | None \<Rightarrow>
                (case str_decimal_literal t of
                   Some (v, []) \<Rightarrow> v
                 | _ \<Rightarrow> NaN)))"

subsection \<open>Throwing\<close>

text \<open>
  A computation that may throw returns \<open>Inl\<close> of the error or \<open>Inr\<close> of its value.
  \<open>and_then\<close> runs the next step when the first did not throw.
\<close>

fun and_then :: "error + 'a \<Rightarrow> ('a \<Rightarrow> error + 'b) \<Rightarrow> error + 'b" where
  "and_then (Inl e) f = Inl e"
| "and_then (Inr x) f = f x"

text \<open>Running a callback that may throw over a list, left to right; the first throw ends it.\<close>

fun map_throwing :: "('a \<Rightarrow> error + 'b) \<Rightarrow> 'a list \<Rightarrow> error + 'b list" where
  "map_throwing f [] = Inr []"
| "map_throwing f (x # xs) =
     (case f x of
        Inl e \<Rightarrow> Inl e
      | Inr y \<Rightarrow> (case map_throwing f xs of Inl e \<Rightarrow> Inl e | Inr ys \<Rightarrow> Inr (y # ys)))"

subsection \<open>Conversions\<close>

text \<open>
  \<^verbatim>\<open>ToString\<close>. An array is its elements joined by commas, with \<^verbatim>\<open>null\<close> and
  \<^verbatim>\<open>undefined\<close> elements left empty (\<^verbatim>\<open>Array.prototype.join\<close>). An object is
  \<^verbatim>\<open>[object Object]\<close>, the answer of \<^verbatim>\<open>Object.prototype.toString\<close>, unless it has a
  property \<^verbatim>\<open>toString\<close> of its own: that property is not callable, the inherited
  \<^verbatim>\<open>valueOf\<close> returns the object itself, and the conversion throws a \<^verbatim>\<open>TypeError\<close>.
  (A property \<^verbatim>\<open>valueOf\<close> of its own is skipped as not callable and changes nothing.)
\<close>

fun ToString :: "jsval \<Rightarrow> error + string"
  and join_elements :: "jsval list \<Rightarrow> error + string"
  and element_text :: "jsval \<Rightarrow> error + string" where
  "ToString Undefined = Inr ''undefined''"
| "ToString Null = Inr ''null''"
| "ToString (Bool b) = Inr (if b then ''true'' else ''false'')"
| "ToString (Num n) = Inr (Number_toString n)"
| "ToString (Str s) = Inr s"
| "ToString (Arr xs) = join_elements xs"
| "ToString (Obj fs) =
     (if ''toString'' \<in> set (map fst fs) then Inl NotPrimitive else Inr ''[object Object]'')"
| "join_elements [] = Inr []"
| "join_elements [x] = element_text x"
| "join_elements (x # y # ys) =
     (case element_text x of
        Inl e \<Rightarrow> Inl e
      | Inr s \<Rightarrow>
          (case join_elements (y # ys) of
             Inl e \<Rightarrow> Inl e
           | Inr t \<Rightarrow> Inr (s @ '','' @ t)))"
| "element_text Undefined = Inr []"
| "element_text Null = Inr []"
| "element_text (Bool b) = ToString (Bool b)"
| "element_text (Num n) = ToString (Num n)"
| "element_text (Str s) = ToString (Str s)"
| "element_text (Arr xs) = ToString (Arr xs)"
| "element_text (Obj fs) = ToString (Obj fs)"

fun ToBoolean :: "jsval \<Rightarrow> bool" where
  "ToBoolean Undefined = False"
| "ToBoolean Null = False"
| "ToBoolean (Bool b) = b"
| "ToBoolean (Num NaN) = False"
| "ToBoolean (Num (Finite neg s e)) = (s \<noteq> 0)"
| "ToBoolean (Num n) = True"
| "ToBoolean (Str s) = (s \<noteq> [])"
| "ToBoolean (Arr xs) = True"
| "ToBoolean (Obj fs) = True"

text \<open>
  \<^verbatim>\<open>ToNumber\<close>. An array or an object is first made a string (\<^verbatim>\<open>valueOf\<close> returns the
  object itself, so \<^verbatim>\<open>toString\<close> decides), which throws where \<^verbatim>\<open>ToString\<close> does.
\<close>

fun ToNumber :: "jsval \<Rightarrow> error + number" where
  "ToNumber Undefined = Inr NaN"
| "ToNumber Null = Inr (Finite False 0 0)"
| "ToNumber (Bool b) = Inr (if b then Finite False 1 0 else Finite False 0 0)"
| "ToNumber (Num n) = Inr n"
| "ToNumber (Str s) = Inr (StringToNumber s)"
| "ToNumber (Arr xs) = and_then (ToString (Arr xs)) (\<lambda>s. Inr (StringToNumber s))"
| "ToNumber (Obj fs) = and_then (ToString (Obj fs)) (\<lambda>s. Inr (StringToNumber s))"

text \<open>The global functions \<^verbatim>\<open>Number\<close>, \<^verbatim>\<open>String\<close> and \<^verbatim>\<open>parseFloat\<close>, called with a value.\<close>

definition Number_fn :: "jsval \<Rightarrow> error + jsval" where
  "Number_fn v = and_then (ToNumber v) (\<lambda>n. Inr (Num n))"

definition String_fn :: "jsval \<Rightarrow> error + jsval" where
  "String_fn v = and_then (ToString v) (\<lambda>s. Inr (Str s))"

definition parseFloat :: "jsval \<Rightarrow> error + jsval" where
  "parseFloat v =
     and_then (ToString v) (\<lambda>s.
       case str_decimal_literal (trim_start s) of
         None \<Rightarrow> Inr (Num NaN)
       | Some (n, rest) \<Rightarrow> Inr (Num n))"

subsection \<open>Reading and writing properties\<close>

text \<open>
  Reading a property. \<open>property\<close> is the read on a value that is neither \<^verbatim>\<open>null\<close> nor
  \<^verbatim>\<open>undefined\<close>: an object answers with its own property, an array or a string with its
  \<^verbatim>\<open>length\<close> and its elements, and every other name read here
  (\<^verbatim>\<open>name\<close>, \<^verbatim>\<open>type\<close>, \<^verbatim>\<open>S\<close>, \<^verbatim>\<open>SS\<close>, \<^verbatim>\<open>N\<close>, \<^verbatim>\<open>NS\<close>, \<^verbatim>\<open>unique\<close>,
  \<^verbatim>\<open>equals\<close>, \<^verbatim>\<open>AttributeDefinitions\<close>) is on no built-in prototype, so the answer is
  \<^verbatim>\<open>undefined\<close>. Reading a property of \<^verbatim>\<open>null\<close> or \<^verbatim>\<open>undefined\<close> throws a
  \<^verbatim>\<open>TypeError\<close>; the functions below test \<open>nullish\<close> before they read.
\<close>

definition array_index :: "string \<Rightarrow> nat option" where
  "array_index k =
     (if k \<noteq> [] \<and> list_all (is_digit 10) k \<and> decimal (digits_value 10 k) = k
      then Some (digits_value 10 k) else None)"

fun property :: "jsval \<Rightarrow> string \<Rightarrow> jsval" where
  "property (Obj fs) k = (case map_of fs k of None \<Rightarrow> Undefined | Some v \<Rightarrow> v)"
| "property (Arr xs) k =
     (if k = ''length'' then Num (of_nat_number (length xs))
      else (case array_index k of
              None \<Rightarrow> Undefined
            | Some i \<Rightarrow> if i < length xs then xs ! i else Undefined))"
| "property (Str s) k =
     (if k = ''length'' then Num (of_nat_number (length s))
      else (case array_index k of
              None \<Rightarrow> Undefined
            | Some i \<Rightarrow> if i < length s then Str [s ! i] else Undefined))"
| "property v k = Undefined"

fun nullish :: "jsval \<Rightarrow> bool" where
  "nullish Undefined = True"
| "nullish Null = True"
| "nullish v = False"

text \<open>
  Writing a property that is not an accessor: an existing property keeps its place, a
  new one goes last (a new name that is an array index is never written after a name that
  is none, or after a larger index). Writing an element of an array past its end leaves
  the skipped elements \<^verbatim>\<open>undefined\<close>.
\<close>

fun set_prop :: "(string \<times> 'a) list \<Rightarrow> string \<Rightarrow> 'a \<Rightarrow> (string \<times> 'a) list" where
  "set_prop [] k v = [(k, v)]"
| "set_prop ((k', v') # fs) k v = (if k' = k then (k, v) # fs else (k', v') # set_prop fs k v)"

definition set_index :: "jsval list \<Rightarrow> nat \<Rightarrow> jsval \<Rightarrow> jsval list" where
  "set_index xs i v =
     (if i < length xs then xs[i := v] else xs @ replicate (i - length xs) Undefined @ [v])"

text \<open>\<^verbatim>\<open>Array.prototype.join\<close> on an array of strings.\<close>

fun join :: "string list \<Rightarrow> string \<Rightarrow> string" where
  "join [] sep = []"
| "join [s] sep = s"
| "join (s # t # ts) sep = s @ sep @ join (t # ts) sep"

text \<open>
  The method call \<^verbatim>\<open>x.toString()\<close>: the method of the value's prototype, which gives
  what \<^verbatim>\<open>ToString\<close> gives; on an object with a property \<^verbatim>\<open>toString\<close> of its own, the
  call of that property, which is no function.
\<close>

fun toString :: "jsval \<Rightarrow> error + jsval" where
  "toString Undefined = Inl NullishProperty"
| "toString Null = Inl NullishProperty"
| "toString (Obj fs) =
     (if ''toString'' \<in> set (map fst fs) then Inl NotAFunction else Inr (Str ''[object Object]''))"
| "toString v = and_then (ToString v) (\<lambda>s. Inr (Str s))"

subsection \<open>The lodash functions used\<close>

text \<open>
  \<^verbatim>\<open>_.every(array, predicate)\<close>: every element's result is truthy. It stops at the first
  element whose result is not, and a throw of the predicate ends it.
\<close>

fun every :: "jsval list \<Rightarrow> (jsval \<Rightarrow> error + jsval) \<Rightarrow> error + bool" where
  "every [] predicate = Inr True"
| "every (x # xs) predicate =
     (case predicate x of
        Inl e \<Rightarrow> Inl e
      | Inr r \<Rightarrow> if ToBoolean r then every xs predicate else Inr False)"

text \<open>
  \<^verbatim>\<open>isLength\<close>: a number that is an integer from 0 to \<open>2 ^ 53 - 1 = 9007199254740991\<close>, and
  \<^verbatim>\<open>isArrayLike\<close>: a value, not \<^verbatim>\<open>null\<close> or \<^verbatim>\<open>undefined\<close>, whose \<^verbatim>\<open>length\<close> is one.
\<close>

fun length_of :: "jsval \<Rightarrow> nat option" where
  "length_of (Num (Finite neg s e)) =
     (case strip_zeros s e of (s', e') \<Rightarrow>
        if 0 \<le> e' \<and> (s' = 0 \<or> \<not> neg) \<and> s' * 10 ^ nat e' \<le> 9007199254740991
        then Some (s' * 10 ^ nat e') else None)"
| "length_of v = None"

definition isArrayLike :: "jsval \<Rightarrow> nat option" where
  "isArrayLike v = (if nullish v then None else length_of (property v ''length''))"

text \<open>
  \<^verbatim>\<open>_.map(collection, iteratee)\<close>. \<open>visited\<close> is the list of the values it passes to
  the iteratee: the elements of an array; for any other array-like value of length \<open>n\<close>
  the properties named \<open>0\<close> to \<open>n - 1\<close>; the property values of any other object; nothing
  for a value with no properties. For an array-like value the result is first allocated
  with \<^verbatim>\<open>Array(n)\<close>, which throws a \<^verbatim>\<open>RangeError\<close> when \<open>n\<close> is above
  \<open>2 ^ 32 - 1 = 4294967295\<close>: then \<open>visited\<close> is \<open>None\<close>.
\<close>

definition visited :: "jsval \<Rightarrow> jsval list option" where
  "visited collection =
     (case collection of
        Arr xs \<Rightarrow> Some xs
      | _ \<Rightarrow>
         (case isArrayLike collection of
            Some n \<Rightarrow>
              if 4294967295 < n then None
              else Some (map (\<lambda>i. property collection (decimal i)) [0..<n])
          | None \<Rightarrow>
             (case collection of
                Obj fs \<Rightarrow> Some (map snd fs)
              | _ \<Rightarrow> Some [])))"

definition lodash_map :: "jsval \<Rightarrow> (jsval \<Rightarrow> error + jsval) \<Rightarrow> error + jsval" where
  "lodash_map collection iteratee =
     (case visited collection of
        None \<Rightarrow> Inl InvalidArrayLength
      | Some values \<Rightarrow> and_then (map_throwing iteratee values) (\<lambda>result. Inr (Arr result)))"

text \<open>
  The names and values \<^verbatim>\<open>_.forIn\<close> visits: the enumerable properties of an object, the
  indices of an array or a string, nothing for any other value.
\<close>

fun forIn :: "jsval \<Rightarrow> (string \<times> jsval) list" where
  "forIn (Obj fs) = fs"
| "forIn (Arr xs) = map (\<lambda>i. (decimal i, xs ! i)) [0..<length xs]"
| "forIn (Str s) = map (\<lambda>i. (decimal i, Str [s ! i])) [0..<length s]"
| "forIn v = []"

text \<open>The type tests \<^verbatim>\<open>_.isArray\<close>, \<^verbatim>\<open>_.isNumber\<close>, \<^verbatim>\<open>_.isString\<close> and \<^verbatim>\<open>_.isObject\<close>.\<close>

fun isArray :: "jsval \<Rightarrow> bool" where
  "isArray (Arr xs) = True"
| "isArray v = False"

fun isNumber :: "jsval \<Rightarrow> bool" where
  "isNumber (Num n) = True"
| "isNumber v = False"

fun isString :: "jsval \<Rightarrow> bool" where
  "isString (Str s) = True"
| "isString v = False"

fun isObject :: "jsval \<Rightarrow> bool" where
  "isObject (Arr xs) = True"
| "isObject (Obj fs) = True"
| "isObject v = False"

fun elements :: "jsval \<Rightarrow> jsval list" where
  "elements (Arr xs) = xs"
| "elements v = []"

section \<open>The functions of utils.js\<close>

subsection \<open>formatSchemaParams\<close>

text \<open>
  Lines 7 to 25. \<^verbatim>\<open>keys.forEach((key, index) => { ... })\<close>: each round pushes one attribute definition
  and one key-schema entry. The state is the pair of the two arrays of \<^verbatim>\<open>params\<close>.
  Reading \<^verbatim>\<open>key.name\<close> throws when the key is \<^verbatim>\<open>null\<close> or \<^verbatim>\<open>undefined\<close>.
\<close>

fun forEach_key :: "jsval list \<Rightarrow> nat \<Rightarrow> jsval list \<times> jsval list \<Rightarrow> error + jsval list \<times> jsval list" where
  "forEach_key [] index params = Inr params"
| "forEach_key (key # keys) index (AttributeDefinitions, KeySchema) =
     (if nullish key then Inl NullishProperty
      else forEach_key keys (Suc index)
        (AttributeDefinitions @
           [Obj [(''AttributeName'', property key ''name''),
                 (''AttributeType'', property key ''type'')]],
         KeySchema @
           [Obj [(''AttributeName'', property key ''name''),
                 (''KeyType'', Str (if index \<noteq> 0 then ''RANGE'' else ''HASH''))]]))"

definition formatSchemaParams :: "jsval list \<Rightarrow> error + jsval" where
  "formatSchemaParams keys =
     (case forEach_key keys 0 ([], []) of
        Inl e \<Rightarrow> Inl e
      | Inr (AttributeDefinitions, KeySchema) \<Rightarrow>
          Inr (Obj [(''AttributeDefinitions'', Arr AttributeDefinitions),
                    (''KeySchema'', Arr KeySchema)]))"

subsection \<open>createTable\<close>

text \<open>
  Lines 34 to 56. \<^verbatim>\<open>createTable\<close> writes into the object its caller passes and returns that object, so
  objects that are written live in a heap: a reference is an index into the list of the
  objects allocated so far (JavaScript has no dangling reference, so a reference is below
  the length of the heap). The \<^verbatim>\<open>params\<close> argument is a reference, or absent, and then
  the default \<^verbatim>\<open>{}\<close> is allocated. A throw leaves the writes made before it.
\<close>

type_synonym ref = nat

type_synonym heap = "(string \<times> jsval) list list"

definition heap_get :: "heap \<Rightarrow> ref \<Rightarrow> string \<Rightarrow> jsval" where
  "heap_get h r k = property (Obj (h ! r)) k"

definition heap_set :: "heap \<Rightarrow> ref \<Rightarrow> string \<Rightarrow> jsval \<Rightarrow> heap" where
  "heap_set h r k v = h[r := set_prop (h ! r) k v]"

text \<open>
  \<^verbatim>\<open>attributes.concat(x)\<close>: \<^verbatim>\<open>Array.prototype.concat\<close> on an array (an array argument
  is spread), \<^verbatim>\<open>String.prototype.concat\<close> on a string, and a \<^verbatim>\<open>TypeError\<close> on any
  other value, which has no callable \<^verbatim>\<open>concat\<close>.
\<close>

fun concat_method :: "jsval \<Rightarrow> jsval \<Rightarrow> error + jsval" where
  "concat_method (Arr xs) (Arr ys) = Inr (Arr (xs @ ys))"
| "concat_method (Arr xs) v = Inr (Arr (xs @ [v]))"
| "concat_method (Str s) v = and_then (ToString v) (\<lambda>t. Inr (Str (s @ t)))"
| "concat_method a v = Inl NotAFunction"

definition createTable ::
    "jsval \<Rightarrow> jsval \<Rightarrow> jsval \<Rightarrow> ref option \<Rightarrow> heap \<Rightarrow> (error + ref) \<times> heap" where
  "createTable tableName hashKey rangeKey params_arg h =
     (let (params, h0) = (case params_arg of None \<Rightarrow> (length h, h @ [[]]) | Some r \<Rightarrow> (r, h));
          keys = [hashKey] @ (if ToBoolean rangeKey then [rangeKey] else []);
          h1 = heap_set h0 params ''TableName'' tableName
      in case formatSchemaParams keys of
           Inl e \<Rightarrow> (Inl e, h1)
         | Inr keys' \<Rightarrow>
            (let attributes =
                   (if ToBoolean (heap_get h1 params ''AttributeDefinitions'')
                    then heap_get h1 params ''AttributeDefinitions'' else Arr [])
             in case concat_method attributes (property keys' ''AttributeDefinitions'') of
                  Inl e \<Rightarrow> (Inl e, h1)
                | Inr definitions \<Rightarrow>
                   (let h2 = heap_set h1 params ''AttributeDefinitions'' definitions;
                        h3 = heap_set h2 params ''KeySchema'' (property keys' ''KeySchema'');
                        h4 = heap_set h3 params ''ProvisionedThroughput''
                               (Obj [(''ReadCapacityUnits'', Num (Finite False 1 0)),
                                     (''WriteCapacityUnits'', Num (Finite False 1 0))])
                    in (Inr params, h4))))"

subsection \<open>formatToDynamoItem\<close>

text \<open>
  Lines 62 to 93. \<^verbatim>\<open>_.every(item, Number)\<close> and \<^verbatim>\<open>_.every(item, String)\<close> call the two
  global functions on each element and test the result for truthiness. When no branch
  applies, the empty \<^verbatim>\<open>obj\<close> is returned.
\<close>

definition formatToDynamoItem :: "jsval \<Rightarrow> error + jsval" where
  "formatToDynamoItem item =
     (if isArray item then
        and_then (every (elements item) Number_fn) (\<lambda>numbers.
          if numbers then
            and_then (map_throwing toString (elements item)) (\<lambda>strings.
              Inr (Obj [(''NS'', Arr strings)]))
          else
            and_then (every (elements item) String_fn) (\<lambda>strings.
              if strings then Inr (Obj [(''SS'', item)])
              else Inl TypeMismatch))
      else if isNumber item then and_then (toString item) (\<lambda>s. Inr (Obj [(''N'', s)]))
      else if isString item then Inr (Obj [(''S'', item)])
      else if isObject item then Inl UnsupportedType
      else if \<not> ToBoolean item then Inl MissingArgument
      else Inr (Obj []))"

subsection \<open>formatFromDynamoItem\<close>

text \<open>
  Lines 111 to 138. The callback of \<^verbatim>\<open>_.transform\<close>: what it assigns to \<^verbatim>\<open>res[key]\<close> for the value
  \<^verbatim>\<open>val\<close>, \<open>None\<close> when it assigns nothing. It never returns \<^verbatim>\<open>false\<close>, so the
  iteration always goes on. Reading \<^verbatim>\<open>val.S\<close> throws on \<^verbatim>\<open>null\<close> and \<^verbatim>\<open>undefined\<close>.
\<close>

definition transform_callback :: "jsval \<Rightarrow> error + jsval option" where
  "transform_callback val =
     (if nullish val then Inl NullishProperty
      else if ToBoolean (property val ''S'') then Inr (Some (property val ''S''))
      else if ToBoolean (property val ''SS'') then Inr (Some (property val ''SS''))
      else if ToBoolean (property val ''N'') then
        and_then (parseFloat (property val ''N'')) (\<lambda>n. Inr (Some n))
      else if ToBoolean (property val ''NS'') then
        and_then (lodash_map (property val ''NS'') parseFloat) (\<lambda>ns. Inr (Some ns))
      else Inr None)"

text \<open>
  The assignment \<^verbatim>\<open>res[key] = v\<close> on the accumulator of \<^verbatim>\<open>_.transform\<close> for an object,
  a new \<^verbatim>\<open>{}\<close>. Every name but one is written as a property of its own. The name
  \<^verbatim>\<open>__proto__\<close> is an accessor of \<^verbatim>\<open>Object.prototype\<close>: its setter makes an object or
  an array \<open>v\<close> the prototype of \<^verbatim>\<open>res\<close> and does nothing for any other \<open>v\<close>; no
  property is written. (When \<^verbatim>\<open>res\<close> already has a property \<^verbatim>\<open>__proto__\<close> of its own,
  or its new prototype has one, the setter is hidden and the property is written.) The
  accumulator is therefore the pair of its prototype, \<open>None\<close> for \<^verbatim>\<open>Object.prototype\<close>,
  and its own properties.
\<close>

fun has_own :: "jsval option \<Rightarrow> string \<Rightarrow> bool" where
  "has_own (Some (Obj fs)) k = (k \<in> set (map fst fs))"
| "has_own p k = False"

definition assign ::
    "jsval option \<times> (string \<times> jsval) list \<Rightarrow> string \<Rightarrow> jsval \<Rightarrow>
     jsval option \<times> (string \<times> jsval) list" where
  "assign res key v =
     (case res of (proto, own) \<Rightarrow>
        if key = ''__proto__'' \<and> ''__proto__'' \<notin> set (map fst own) \<and> \<not> has_own proto ''__proto__''
        then (if isObject v then (Some v, own) else (proto, own))
        else (proto, set_prop own key v))"

text \<open>
  What \<^verbatim>\<open>formatFromDynamoItem\<close> returns: a value as above, or an object whose prototype
  the assignment to \<^verbatim>\<open>__proto__\<close> has replaced, given by the new prototype and the
  properties of its own.
\<close>

datatype decoded = Value jsval | Reparented jsval "(string \<times> jsval) list"

fun accumulated :: "jsval option \<times> (string \<times> jsval) list \<Rightarrow> decoded" where
  "accumulated (None, own) = Value (Obj own)"
| "accumulated (Some proto, own) = Reparented proto own"

text \<open>
  \<^verbatim>\<open>_.transform(item, callback)\<close> with no accumulator given: over the own properties of
  an object into a new \<^verbatim>\<open>{}\<close>, over the indices of an array into a new \<^verbatim>\<open>[]\<close>.
\<close>

fun transform_object ::
    "(string \<times> jsval) list \<Rightarrow> jsval option \<times> (string \<times> jsval) list \<Rightarrow>
     error + jsval option \<times> (string \<times> jsval) list" where
  "transform_object [] res = Inr res"
| "transform_object ((key, val) # rest) res =
     (case transform_callback val of
        Inl e \<Rightarrow> Inl e
      | Inr None \<Rightarrow> transform_object rest res
      | Inr (Some v) \<Rightarrow> transform_object rest (assign res key v))"

fun transform_array :: "jsval list \<Rightarrow> nat \<Rightarrow> jsval list \<Rightarrow> error + jsval list" where
  "transform_array [] key res = Inr res"
| "transform_array (val # rest) key res =
     (case transform_callback val of
        Inl e \<Rightarrow> Inl e
      | Inr None \<Rightarrow> transform_array rest (Suc key) res
      | Inr (Some v) \<Rightarrow> transform_array rest (Suc key) (set_index res key v))"

text \<open>
  The function itself. For an array, \<^verbatim>\<open>_.forEach\<close> first decodes every element into
  \<^verbatim>\<open>obj\<close>; an array is an object too, so the second \<^verbatim>\<open>if\<close> then replaces \<^verbatim>\<open>obj\<close> by
  the result of \<^verbatim>\<open>_.transform\<close>. A value that is no object gives the empty \<^verbatim>\<open>obj\<close>.
\<close>

fun formatFromDynamoItem :: "jsval \<Rightarrow> error + decoded"
  and forEach_item ::
    "jsval list \<Rightarrow> nat \<Rightarrow> (string \<times> decoded) list \<Rightarrow> error + (string \<times> decoded) list" where
  "formatFromDynamoItem (Arr xs) =
     (case forEach_item xs 0 [] of
        Inl e \<Rightarrow> Inl e
      | Inr obj \<Rightarrow>
          (case transform_array xs 0 [] of
             Inl e \<Rightarrow> Inl e
           | Inr res \<Rightarrow> Inr (Value (Arr res))))"
| "formatFromDynamoItem (Obj fs) =
     (case transform_object fs (None, []) of
        Inl e \<Rightarrow> Inl e
      | Inr res \<Rightarrow> Inr (accumulated res))"
| "formatFromDynamoItem Undefined = Inr (Value (Obj []))"
| "formatFromDynamoItem Null = Inr (Value (Obj []))"
| "formatFromDynamoItem (Bool b) = Inr (Value (Obj []))"
| "formatFromDynamoItem (Num n) = Inr (Value (Obj []))"
| "formatFromDynamoItem (Str s) = Inr (Value (Obj []))"
| "forEach_item [] key obj = Inr obj"
| "forEach_item (value # rest) key obj =
     (case formatFromDynamoItem value of
        Inl e \<Rightarrow> Inl e
      | Inr r \<Rightarrow> forEach_item rest (Suc key) (set_prop obj (decimal key) r))"

subsection \<open>conditionBuilder\<close>

text \<open>
  Lines 157 to 177. The argument defaults to \<^verbatim>\<open>{}\<close> when it is \<^verbatim>\<open>undefined\<close>. The template literal
  makes each key a string. The \<^verbatim>\<open>equals\<close> branch is empty.
\<close>

definition conditionBuilder :: "jsval \<Rightarrow> error + jsval" where
  "conditionBuilder arg =
     (let condition = (if arg = Undefined then Obj [] else arg) in
      if nullish condition then Inl NullishProperty
      else if ToBoolean (property condition ''unique'') \<and> isArray (property condition ''unique'') then
        (let keys = elements (property condition ''unique'') in
         and_then (every keys String_fn) (\<lambda>strings.
           and_then
             (if strings
              then map_throwing
                     (\<lambda>key. and_then (ToString key) (\<lambda>s. Inr (''attribute_not_exists('' @ s @ '')'')))
                     keys
              else Inr [])
             (\<lambda>conditionArray.
                Inr (Obj [(''ConditionExpression'', Str (join conditionArray '' AND ''))]))))
      else Inr Null)"

subsection \<open>updateItem\<close>

text \<open>
  Lines 183 to 200. \<^verbatim>\<open>_.forIn(keys, (value, key) => { ... })\<close>: the state is the array
  \<^verbatim>\<open>updateExpression\<close> and the two objects of \<^verbatim>\<open>params\<close>. A throw of
  \<^verbatim>\<open>formatToDynamoItem\<close> ends the call.
\<close>

fun forIn_update ::
    "(string \<times> jsval) list \<Rightarrow> string list \<times> (string \<times> jsval) list \<times> (string \<times> jsval) list \<Rightarrow>
     error + string list \<times> (string \<times> jsval) list \<times> (string \<times> jsval) list" where
  "forIn_update [] state = Inr state"
| "forIn_update ((key, value) # rest)
       (updateExpression, ExpressionAttributeValues, ExpressionAttributeNames) =
     (case formatToDynamoItem value of
        Inl e \<Rightarrow> Inl e
      | Inr item \<Rightarrow>
          forIn_update rest
            (updateExpression @ [''#'' @ key @ ''Attribute = :'' @ key @ ''Value''],
             set_prop ExpressionAttributeValues ('':'' @ key @ ''Value'') item,
             set_prop ExpressionAttributeNames (''#'' @ key @ ''Attribute'') (Str key)))"

definition updateItem :: "jsval \<Rightarrow> error + jsval" where
  "updateItem keys =
     (case forIn_update (forIn keys) ([], [], []) of
        Inl e \<Rightarrow> Inl e
      | Inr (updateExpression, ExpressionAttributeValues, ExpressionAttributeNames) \<Rightarrow>
          Inr (Obj [(''ExpressionAttributeNames'', Obj ExpressionAttributeNames),
                    (''ExpressionAttributeValues'', Obj ExpressionAttributeValues),
                    (''UpdateExpression'', Str (''SET '' @ join updateExpression '', ''))]))"

subsection \<open>Predicates on the input of formatFromDynamoItem\<close>






section \<open>What the functions do\<close>

subsection \<open>Helper facts\<close>

lemma forEach_key_eq:
  "list_all (\<lambda>key. \<not> nullish key) keys \<Longrightarrow>
   forEach_key keys i (ds, ks) =
     Inr (ds @ map (\<lambda>key. Obj [(''AttributeName'', property key ''name''),
                                 (''AttributeType'', property key ''type'')]) keys,
          ks @ map (\<lambda>(index, key). Obj [(''AttributeName'', property key ''name''),
                                 (''KeyType'', Str (if index = 0 then ''HASH'' else ''RANGE''))])
                 (enumerate i keys))"
  by (induction keys arbitrary: i ds ks) auto

lemma map_of_set_prop: "map_of (set_prop fs k v) = (map_of fs)(k \<mapsto> v)"
  by (induction fs) (auto simp: fun_eq_iff)

lemma property_set_prop:
  "property (Obj (set_prop fs k v)) k' = (if k' = k then v else property (Obj fs) k')"
  by (simp add: map_of_set_prop)

lemma heap_get_heap_set:
  "r < length h \<Longrightarrow>
   heap_get (heap_set h r k v) r' k' = (if r' = r \<and> k' = k then v else heap_get h r' k')"
  by (cases "r' = r") (simp_all add: heap_get_def heap_set_def property_set_prop del: property.simps)

lemma length_heap_set: "length (heap_set h r k v) = length h"
  by (simp add: heap_set_def)

lemma nth_heap_set: "r' \<noteq> r \<Longrightarrow> heap_set h r k v ! r' = h ! r'"
  by (simp add: heap_set_def)

lemma truthy_not_nullish: "ToBoolean v \<Longrightarrow> \<not> nullish v"
  by (cases v) simp_all

lemma map_throwing_Inr:
  "map_throwing f xs = Inr ys \<longleftrightarrow> list_all2 (\<lambda>x y. f x = Inr y) xs ys"
proof (induction xs arbitrary: ys)
  case Nil
  then show ?case by auto
next
  case (Cons x xs)
  show ?case
  proof (cases ys)
    case Nil
    then show ?thesis by (simp split: sum.splits)
  next
    case (Cons y ys')
    show ?thesis
      unfolding Cons using Cons.IH [of ys', symmetric]
      by (auto split: sum.splits)
  qed
qed

lemma set_prop_new: "k \<notin> fst ` set fs \<Longrightarrow> set_prop fs k v = fs @ [(k, v)]"
  by (induction fs) auto

lemma forIn_update_eq:
  assumes "distinct (map fst fields)"
    and "\<forall>k \<in> fst ` set fields. '':'' @ k @ ''Value'' \<notin> fst ` set vals"
    and "\<forall>k \<in> fst ` set fields. ''#'' @ k @ ''Attribute'' \<notin> fst ` set names"
  shows "forIn_update fields (ue, vals, names) =
     (case map_throwing formatToDynamoItem (map snd fields) of
        Inl e \<Rightarrow> Inl e
      | Inr items \<Rightarrow>
          Inr (ue @ map (\<lambda>(k, v). ''#'' @ k @ ''Attribute = :'' @ k @ ''Value'') fields,
               vals @ zip (map (\<lambda>(k, v). '':'' @ k @ ''Value'') fields) items,
               names @ map (\<lambda>(k, v). (''#'' @ k @ ''Attribute'', Str k)) fields))"
  using assms
proof (induction fields arbitrary: ue vals names)
  case Nil
  then show ?case by simp
next
  case (Cons f fields)
  obtain k v where f: "f = (k, v)" by (cases f)
  show ?case
  proof (cases "formatToDynamoItem v")
    case (Inl e)
    then show ?thesis by (simp add: f)
  next
    case (Inr item)
    have new: "set_prop vals ('':'' @ k @ ''Value'') item = vals @ [('':'' @ k @ ''Value'', item)]"
         "set_prop names (''#'' @ k @ ''Attribute'') (Str k) = names @ [(''#'' @ k @ ''Attribute'', Str k)]"
      using Cons.prems by (simp_all add: f set_prop_new)
    have rest: "\<forall>k' \<in> fst ` set fields. '':'' @ k' @ ''Value'' \<notin> fst ` set (vals @ [('':'' @ k @ ''Value'', item)])"
      "\<forall>k' \<in> fst ` set fields. ''#'' @ k' @ ''Attribute'' \<notin> fst ` set (names @ [(''#'' @ k @ ''Attribute'', Str k)])"
      "distinct (map fst fields)"
      using Cons.prems by (auto simp: f)
    show ?thesis
      using Cons.IH [OF rest(3) rest(1) rest(2), of "ue @ [''#'' @ k @ ''Attribute = :'' @ k @ ''Value'']"] new
      by (simp add: f Inr split: sum.splits)
  qed
qed

lemma every_numbers:
  "list_all (\<lambda>n. ToBoolean (Num n)) ns \<Longrightarrow> every (map Num ns) Number_fn = Inr True"
  by (induction ns) (simp_all add: Number_fn_def)

lemma formatToDynamoItem_nonzero_numbers:
  assumes "list_all (\<lambda>n. ToBoolean (Num n)) ns"
  shows "formatToDynamoItem (Arr (map Num ns)) =
     Inr (Obj [(''NS'', Arr (map (\<lambda>n. Str (Number_toString n)) ns))])"
proof -
  have "map_throwing toString (map Num ns) = Inr (map (\<lambda>n. Str (Number_toString n)) ns)"
    by (induction ns) simp_all
  with every_numbers [OF assms] show ?thesis
    by (simp add: formatToDynamoItem_def)
qed

lemma array_index_tag [simp]:
  "array_index ''S'' = None" "array_index ''SS'' = None"
  "array_index ''N'' = None" "array_index ''NS'' = None"
  by (simp_all add: array_index_def is_digit_def digit_value_def)

lemma transform_callback_Str: "transform_callback (Str s) = Inr None"
  by (simp add: transform_callback_def)

lemma transform_callback_S:
  "s \<noteq> [] \<Longrightarrow> transform_callback (Obj [(''S'', Str s)]) = Inr (Some (Str s))"
  by (simp add: transform_callback_def)















subsection \<open>formatToDynamoItem on null and undefined\<close>

text \<open>
  Claim C6. \<^verbatim>\<open>formatToDynamoItem(null)\<close> and \<^verbatim>\<open>formatToDynamoItem(undefined)\<close> throw the
  \<^verbatim>\<open>TypeError\<close> 'Cannot call convert_to_dynamo() with no arguments' (\<open>MissingArgument\<close>);
  neither returns a typed attribute.
\<close>

theorem formatToDynamoItem_null_undefined:
  "formatToDynamoItem Null = Inl MissingArgument \<and>
   formatToDynamoItem Undefined = Inl MissingArgument"
  by (simp add: formatToDynamoItem_def)

subsection \<open>formatSchemaParams\<close>

text \<open>
  Claim C8. For every array of key descriptors (values that are not \<^verbatim>\<open>null\<close> or
  \<^verbatim>\<open>undefined\<close>), \<^verbatim>\<open>formatSchemaParams\<close> returns the two arrays in the order of the
  input: the attribute definitions \<^verbatim>\<open>{AttributeName: key.name, AttributeType: key.type}\<close>
  and the key-schema entries \<^verbatim>\<open>{AttributeName: key.name, KeyType}\<close>, where the key type
  of the descriptor at position \<open>i\<close> is HASH for \<open>i = 0\<close> and RANGE otherwise.
\<close>

theorem formatSchemaParams_by_position:
  assumes "list_all (\<lambda>key. \<not> nullish key) keys"
  shows "formatSchemaParams keys =
     Inr (Obj [(''AttributeDefinitions'',
                Arr (map (\<lambda>key. Obj [(''AttributeName'', property key ''name''),
                                       (''AttributeType'', property key ''type'')]) keys)),
               (''KeySchema'',
                Arr (map (\<lambda>(i, key). Obj [(''AttributeName'', property key ''name''),
                                       (''KeyType'', Str (if i = 0 then ''HASH'' else ''RANGE''))])
                       (enumerate 0 keys)))])"
  using assms by (simp add: formatSchemaParams_def forEach_key_eq)

theorem formatSchemaParams_by_position_witness:
  "list_all (\<lambda>key. \<not> nullish key)
     [Obj [(''name'', Str ''id''), (''type'', Str ''S'')],
      Obj [(''name'', Str ''ts''), (''type'', Str ''N'')]] \<and>
   formatSchemaParams
     [Obj [(''name'', Str ''id''), (''type'', Str ''S'')],
      Obj [(''name'', Str ''ts''), (''type'', Str ''N'')]] =
     Inr (Obj [(''AttributeDefinitions'',
                Arr [Obj [(''AttributeName'', Str ''id''), (''AttributeType'', Str ''S'')],
                     Obj [(''AttributeName'', Str ''ts''), (''AttributeType'', Str ''N'')]]),
               (''KeySchema'',
                Arr [Obj [(''AttributeName'', Str ''id''), (''KeyType'', Str ''HASH'')],
                     Obj [(''AttributeName'', Str ''ts''), (''KeyType'', Str ''RANGE'')]])])"
  using formatSchemaParams_by_position
    [of "[Obj [(''name'', Str ''id''), (''type'', Str ''S'')],
          Obj [(''name'', Str ''ts''), (''type'', Str ''N'')]]"]
  by simp

subsection \<open>createTable\<close>

text \<open>
  Claim C7. Called with a \<^verbatim>\<open>params\<close> object, a hash key descriptor and an optional
  range key, \<^verbatim>\<open>createTable\<close> returns the reference it was given and changes no other
  object. In that object, \<^verbatim>\<open>AttributeDefinitions\<close> becomes the caller's definitions (none
  when the property is absent) followed by the definition of the hash key and then, when
  a range key is given, the definition of the range key; \<^verbatim>\<open>KeySchema\<close> becomes the HASH
  entry of the hash key followed, when a range key is given, by the RANGE entry of the
  range key; \<^verbatim>\<open>ProvisionedThroughput\<close> becomes
  \<^verbatim>\<open>{ReadCapacityUnits: 1, WriteCapacityUnits: 1}\<close>, whatever the two held before;
  \<^verbatim>\<open>TableName\<close> is set and every other property is kept. The witness has one call with
  a range key and one without.
\<close>

theorem createTable_writes_params:
  assumes ref: "params < length h"
    and hashKey: "\<not> nullish hashKey"
    and supplied: "heap_get h params ''AttributeDefinitions'' = Arr supplied \<or>
                   supplied = [] \<and> \<not> ToBoolean (heap_get h params ''AttributeDefinitions'')"
  shows "\<exists>h'. createTable tableName hashKey rangeKey (Some params) h = (Inr params, h') \<and>
      length h' = length h \<and>
      (\<forall>r. r \<noteq> params \<longrightarrow> h' ! r = h ! r) \<and>
      heap_get h' params ''TableName'' = tableName \<and>
      heap_get h' params ''AttributeDefinitions'' =
        Arr (supplied @
             (if ToBoolean rangeKey
              then [Obj [(''AttributeName'', property hashKey ''name''),
                         (''AttributeType'', property hashKey ''type'')],
                    Obj [(''AttributeName'', property rangeKey ''name''),
                         (''AttributeType'', property rangeKey ''type'')]]
              else [Obj [(''AttributeName'', property hashKey ''name''),
                         (''AttributeType'', property hashKey ''type'')]])) \<and>
      heap_get h' params ''KeySchema'' =
        Arr (if ToBoolean rangeKey
             then [Obj [(''AttributeName'', property hashKey ''name''), (''KeyType'', Str ''HASH'')],
                   Obj [(''AttributeName'', property rangeKey ''name''), (''KeyType'', Str ''RANGE'')]]
             else [Obj [(''AttributeName'', property hashKey ''name''), (''KeyType'', Str ''HASH'')]]) \<and>
      heap_get h' params ''ProvisionedThroughput'' =
        Obj [(''ReadCapacityUnits'', Num (Finite False 1 0)),
             (''WriteCapacityUnits'', Num (Finite False 1 0))] \<and>
      (\<forall>k. k \<notin> {''TableName'', ''AttributeDefinitions'', ''KeySchema'', ''ProvisionedThroughput''} \<longrightarrow>
           heap_get h' params k = heap_get h params k)"
proof -
  let ?keys = "[hashKey] @ (if ToBoolean rangeKey then [rangeKey] else [])"
  let ?defs = "if ToBoolean rangeKey
              then [Obj [(''AttributeName'', property hashKey ''name''),
                         (''AttributeType'', property hashKey ''type'')],
                    Obj [(''AttributeName'', property rangeKey ''name''),
                         (''AttributeType'', property rangeKey ''type'')]]
              else [Obj [(''AttributeName'', property hashKey ''name''),
                         (''AttributeType'', property hashKey ''type'')]]"
  let ?schema = "if ToBoolean rangeKey
             then [Obj [(''AttributeName'', property hashKey ''name''), (''KeyType'', Str ''HASH'')],
                   Obj [(''AttributeName'', property rangeKey ''name''), (''KeyType'', Str ''RANGE'')]]
             else [Obj [(''AttributeName'', property hashKey ''name''), (''KeyType'', Str ''HASH'')]]"
  let ?h1 = "heap_set h params ''TableName'' tableName"
  have "list_all (\<lambda>key. \<not> nullish key) ?keys"
    using hashKey by (simp add: truthy_not_nullish)
  then have schema: "formatSchemaParams ?keys =
      Inr (Obj [(''AttributeDefinitions'', Arr ?defs), (''KeySchema'', Arr ?schema)])"
    by (simp add: formatSchemaParams_def forEach_key_eq)
  have old: "heap_get ?h1 params ''AttributeDefinitions'' = heap_get h params ''AttributeDefinitions''"
    using ref by (simp add: heap_get_heap_set)
  have concat: "concat_method
      (if ToBoolean (heap_get ?h1 params ''AttributeDefinitions'')
       then heap_get ?h1 params ''AttributeDefinitions'' else Arr [])
      (Arr ?defs) = Inr (Arr (supplied @ ?defs))"
    using supplied unfolding old by auto
  let ?h4 = "heap_set (heap_set (heap_set ?h1 params ''AttributeDefinitions'' (Arr (supplied @ ?defs)))
                params ''KeySchema'' (Arr ?schema))
                params ''ProvisionedThroughput''
                  (Obj [(''ReadCapacityUnits'', Num (Finite False 1 0)),
                        (''WriteCapacityUnits'', Num (Finite False 1 0))])"
  have result: "createTable tableName hashKey rangeKey (Some params) h = (Inr params, ?h4)"
    unfolding createTable_def Let_def using schema concat by simp
  have "length ?h4 = length h"
    by (simp add: length_heap_set)
  moreover have "\<forall>r. r \<noteq> params \<longrightarrow> ?h4 ! r = h ! r"
    by (simp add: nth_heap_set)
  moreover have "heap_get ?h4 params k =
      (if k = ''ProvisionedThroughput'' then
         Obj [(''ReadCapacityUnits'', Num (Finite False 1 0)),
              (''WriteCapacityUnits'', Num (Finite False 1 0))]
       else if k = ''KeySchema'' then Arr ?schema
       else if k = ''AttributeDefinitions'' then Arr (supplied @ ?defs)
       else if k = ''TableName'' then tableName
       else heap_get h params k)" for k
    using ref by (simp add: heap_get_heap_set length_heap_set)
  ultimately show ?thesis
    using result by simp
qed

theorem createTable_writes_params_witness:
  "(\<exists>h'. createTable (Str ''users'')
            (Obj [(''name'', Str ''id''), (''type'', Str ''S'')])
            (Obj [(''name'', Str ''ts''), (''type'', Str ''N'')])
            (Some 1)
            [[(''unrelated'', Null)],
             [(''KeySchema'', Str ''old''),
              (''AttributeDefinitions'',
                 Arr [Obj [(''AttributeName'', Str ''email''), (''AttributeType'', Str ''S'')]]),
              (''ProvisionedThroughput'', Obj [(''ReadCapacityUnits'', Num (Finite False 5 0))])]]
          = (Inr 1, h') \<and>
        h' ! 0 = [(''unrelated'', Null)] \<and>
        heap_get h' 1 ''AttributeDefinitions'' =
          Arr [Obj [(''AttributeName'', Str ''email''), (''AttributeType'', Str ''S'')],
               Obj [(''AttributeName'', Str ''id''), (''AttributeType'', Str ''S'')],
               Obj [(''AttributeName'', Str ''ts''), (''AttributeType'', Str ''N'')]] \<and>
        heap_get h' 1 ''KeySchema'' =
          Arr [Obj [(''AttributeName'', Str ''id''), (''KeyType'', Str ''HASH'')],
               Obj [(''AttributeName'', Str ''ts''), (''KeyType'', Str ''RANGE'')]] \<and>
        heap_get h' 1 ''ProvisionedThroughput'' =
          Obj [(''ReadCapacityUnits'', Num (Finite False 1 0)),
               (''WriteCapacityUnits'', Num (Finite False 1 0))]) \<and>
   (\<exists>h'. createTable (Str ''users'') (Obj [(''name'', Str ''id''), (''type'', Str ''S'')]) Undefined
            (Some 0) [[]]
          = (Inr 0, h') \<and>
        heap_get h' 0 ''AttributeDefinitions'' =
          Arr [Obj [(''AttributeName'', Str ''id''), (''AttributeType'', Str ''S'')]] \<and>
        heap_get h' 0 ''KeySchema'' =
          Arr [Obj [(''AttributeName'', Str ''id''), (''KeyType'', Str ''HASH'')]])"
proof -
  let ?h = "[[(''unrelated'', Null)],
           [(''KeySchema'', Str ''old''),
            (''AttributeDefinitions'',
               Arr [Obj [(''AttributeName'', Str ''email''), (''AttributeType'', Str ''S'')]]),
            (''ProvisionedThroughput'', Obj [(''ReadCapacityUnits'', Num (Finite False 5 0))])]]"
  let ?hashKey = "Obj [(''name'', Str ''id''), (''type'', Str ''S'')]"
  let ?rangeKey = "Obj [(''name'', Str ''ts''), (''type'', Str ''N'')]"
  let ?supplied = "[Obj [(''AttributeName'', Str ''email''), (''AttributeType'', Str ''S'')]]"
  have 1: "1 < length ?h" by simp
  have 2: "\<not> nullish ?hashKey" by simp
  have 3: "heap_get ?h 1 ''AttributeDefinitions'' = Arr ?supplied \<or>
           ?supplied = [] \<and> \<not> ToBoolean (heap_get ?h 1 ''AttributeDefinitions'')"
    by (simp add: heap_get_def)
  have 4: "0 < length [[] :: (string \<times> jsval) list]" by simp
  have 5: "heap_get [[]] 0 ''AttributeDefinitions'' = Arr [] \<or>
           ([] :: jsval list) = [] \<and> \<not> ToBoolean (heap_get [[]] 0 ''AttributeDefinitions'')"
    by (simp add: heap_get_def)
  have with_range: "\<exists>h'. createTable (Str ''users'') ?hashKey ?rangeKey (Some 1) ?h = (Inr 1, h') \<and>
        h' ! 0 = [(''unrelated'', Null)] \<and>
        heap_get h' 1 ''AttributeDefinitions'' =
          Arr [Obj [(''AttributeName'', Str ''email''), (''AttributeType'', Str ''S'')],
               Obj [(''AttributeName'', Str ''id''), (''AttributeType'', Str ''S'')],
               Obj [(''AttributeName'', Str ''ts''), (''AttributeType'', Str ''N'')]] \<and>
        heap_get h' 1 ''KeySchema'' =
          Arr [Obj [(''AttributeName'', Str ''id''), (''KeyType'', Str ''HASH'')],
               Obj [(''AttributeName'', Str ''ts''), (''KeyType'', Str ''RANGE'')]] \<and>
        heap_get h' 1 ''ProvisionedThroughput'' =
          Obj [(''ReadCapacityUnits'', Num (Finite False 1 0)),
               (''WriteCapacityUnits'', Num (Finite False 1 0))]"
    using createTable_writes_params [OF 1 2 3, of "Str ''users''" ?rangeKey] by auto
  have without_range: "\<exists>h'. createTable (Str ''users'') ?hashKey Undefined (Some 0) [[]] = (Inr 0, h') \<and>
        heap_get h' 0 ''AttributeDefinitions'' =
          Arr [Obj [(''AttributeName'', Str ''id''), (''AttributeType'', Str ''S'')]] \<and>
        heap_get h' 0 ''KeySchema'' =
          Arr [Obj [(''AttributeName'', Str ''id''), (''KeyType'', Str ''HASH'')]]"
    using createTable_writes_params [OF 4 2 5, of "Str ''users''" Undefined] by auto
  from with_range without_range show ?thesis by blast
qed

subsection \<open>conditionBuilder\<close>

text \<open>
  Claim C10. For a condition whose \<^verbatim>\<open>unique\<close> is the empty array, \<^verbatim>\<open>conditionBuilder\<close>
  returns the object \<^verbatim>\<open>{ConditionExpression: ''}\<close>: the expression is the empty string,
  and the result is not \<^verbatim>\<open>null\<close>.
\<close>

theorem conditionBuilder_unique_empty:
  assumes "property condition ''unique'' = Arr []"
  shows "conditionBuilder condition = Inr (Obj [(''ConditionExpression'', Str [])]) \<and>
         conditionBuilder condition \<noteq> Inr Null"
proof -
  from assms have "\<not> nullish condition" and "condition \<noteq> Undefined"
    by (cases condition; simp)+
  with assms show ?thesis
    by (simp add: conditionBuilder_def)
qed

theorem conditionBuilder_unique_empty_witness:
  "property (Obj [(''unique'', Arr [])]) ''unique'' = Arr [] \<and>
   conditionBuilder (Obj [(''unique'', Arr [])]) = Inr (Obj [(''ConditionExpression'', Str [])]) \<and>
   conditionBuilder (Obj [(''unique'', Arr [])]) \<noteq> Inr Null"
  using conditionBuilder_unique_empty [of "Obj [(''unique'', Arr [])]"] by simp

subsection \<open>updateItem\<close>

text \<open>
  Claim C9. For every record (an object, whose property names are distinct),
  \<^verbatim>\<open>updateItem\<close> maps each field \<open>k\<close> with value \<open>v\<close>, in the order of the record, to
  the name placeholder \<^verbatim>\<open>#kAttribute\<close> bound to \<open>k\<close>, the value placeholder
  \<^verbatim>\<open>:kValue\<close> bound to \<^verbatim>\<open>formatToDynamoItem(v)\<close> and the fragment
  \<^verbatim>\<open>#kAttribute = :kValue\<close>; \<^verbatim>\<open>UpdateExpression\<close> is \<^verbatim>\<open>SET\<close> and the fragments
  joined by a comma and a space. When \<^verbatim>\<open>formatToDynamoItem\<close> throws on a value, the call
  throws the first such error. The witness is the record \<^verbatim>\<open>{age: 5, name: "bob"}\<close>.
\<close>

theorem updateItem_expression:
  assumes "distinct (map fst fields)"
  shows "updateItem (Obj fields) =
     (case map_throwing formatToDynamoItem (map snd fields) of
        Inl e \<Rightarrow> Inl e
      | Inr items \<Rightarrow>
          Inr (Obj [(''ExpressionAttributeNames'',
                       Obj (map (\<lambda>(k, v). (''#'' @ k @ ''Attribute'', Str k)) fields)),
                    (''ExpressionAttributeValues'',
                       Obj (zip (map (\<lambda>(k, v). '':'' @ k @ ''Value'') fields) items)),
                    (''UpdateExpression'',
                       Str (''SET '' @
                            join (map (\<lambda>(k, v). ''#'' @ k @ ''Attribute = :'' @ k @ ''Value'') fields)
                              '', ''))]))"
  using assms by (simp add: updateItem_def forIn_update_eq split: sum.splits)

theorem updateItem_expression_witness:
  "distinct (map fst [(''age'', Num (Finite False 5 0)), (''name'', Str ''bob'')]) \<and>
   updateItem (Obj [(''age'', Num (Finite False 5 0)), (''name'', Str ''bob'')]) =
     Inr (Obj [(''ExpressionAttributeNames'',
                  Obj [(''#ageAttribute'', Str ''age''), (''#nameAttribute'', Str ''name'')]),
               (''ExpressionAttributeValues'',
                  Obj [('':ageValue'', Obj [(''N'', Str ''5'')]),
                       ('':nameValue'', Obj [(''S'', Str ''bob'')])]),
               (''UpdateExpression'',
                  Str ''SET #ageAttribute = :ageValue, #nameAttribute = :nameValue'')])"
  using updateItem_expression [of "[(''age'', Num (Finite False 5 0)), (''name'', Str ''bob'')]"]
  by (simp add: formatToDynamoItem_def strip_zeros.simps finite_text_def decimal.simps digit_char_def)


subsection \<open>formatToDynamoItem on arrays\<close>

text \<open>
  Claim C1 says that every array of numbers is encoded as \<^verbatim>\<open>{NS: [...]}\<close> with the
  numbers as strings. The test \<^verbatim>\<open>_.every(item, Number)\<close> asks whether every
  \<^verbatim>\<open>Number(x)\<close> is truthy, so the number 0 fails it (as NaN does); \<^verbatim>\<open>String(0)\<close> is the
  truthy \<^verbatim>\<open>"0"\<close>, and \<^verbatim>\<open>formatToDynamoItem([0])\<close> is \<^verbatim>\<open>{SS: [0]}\<close>, with the number
  itself inside. (\<open>formatToDynamoItem_nonzero_numbers\<close> above is the case the test does
  cover; the scalar branch encodes 0 as \<^verbatim>\<open>{N: "0"}\<close>.)
\<close>

theorem formatToDynamoItem_zero_array:
  "formatToDynamoItem (Arr [Num (Finite False 0 0)]) =
     Inr (Obj [(''SS'', Arr [Num (Finite False 0 0)])])"
  by (simp add: formatToDynamoItem_def Number_fn_def String_fn_def strip_zeros.simps)

text \<open>
  Claim C2 says that an array mixing numbers and strings throws 'Expected homogenous
  array of numbers or strings'. \<^verbatim>\<open>_.every(item, String)\<close> holds whenever no
  \<^verbatim>\<open>String(x)\<close> is empty, so \<^verbatim>\<open>formatToDynamoItem([1, "a"])\<close> returns
  \<^verbatim>\<open>{SS: [1, "a"]}\<close> and does not throw.
\<close>

theorem formatToDynamoItem_mixed_array:
  "formatToDynamoItem (Arr [Num (Finite False 1 0), Str ''a'']) =
     Inr (Obj [(''SS'', Arr [Num (Finite False 1 0), Str ''a''])])"
  by (simp add: formatToDynamoItem_def Number_fn_def String_fn_def strip_zeros.simps
        finite_text_def decimal.simps digit_char_def
        StringToNumber_def trim_def is_space_def non_decimal_literal_def str_decimal_literal_def
        take_sign_def is_digit_def digit_value_def)

text \<open>
  Claim C3 says that every result has exactly one of the tags N, S, NS, SS and carries
  numbers as text. \<^verbatim>\<open>formatToDynamoItem([0, 7])\<close> is \<^verbatim>\<open>{SS: [0, 7]}\<close>, whose payload
  holds the numbers themselves; and \<^verbatim>\<open>formatToDynamoItem(true)\<close> falls through every
  branch and returns \<^verbatim>\<open>{}\<close>, with no tag.
\<close>

theorem formatToDynamoItem_untagged_or_numeric_payload:
  "formatToDynamoItem (Bool True) = Inr (Obj []) \<and>
   formatToDynamoItem (Arr [Num (Finite False 0 0), Num (Finite False 7 0)]) =
     Inr (Obj [(''SS'', Arr [Num (Finite False 0 0), Num (Finite False 7 0)])])"
  by (simp add: formatToDynamoItem_def Number_fn_def String_fn_def strip_zeros.simps
        finite_text_def decimal.simps digit_char_def)

subsection \<open>formatFromDynamoItem\<close>

text \<open>
  Claim C4 says that \<^verbatim>\<open>formatFromDynamoItem(formatToDynamoItem(s))\<close> is \<open>s\<close> for every
  string. \<^verbatim>\<open>formatFromDynamoItem\<close> reads its argument as a record of typed attributes:
  given the typed attribute \<^verbatim>\<open>{S: "bob"}\<close> itself, it looks for a tag inside the string
  \<^verbatim>\<open>"bob"\<close>, finds none and returns \<^verbatim>\<open>{}\<close>.
\<close>

theorem decode_encode_string_counterexample:
  "formatToDynamoItem (Str ''bob'') = Inr (Obj [(''S'', Str ''bob'')]) \<and>
   formatFromDynamoItem (Obj [(''S'', Str ''bob'')]) = Inr (Value (Obj [])) \<and>
   formatFromDynamoItem (Obj [(''S'', Str ''bob'')]) \<noteq> Inr (Value (Str ''bob''))"
  by (simp add: formatToDynamoItem_def transform_callback_Str)

text \<open>
  Claim C4, amended. For every string \<open>s\<close>, \<^verbatim>\<open>formatToDynamoItem(s)\<close> returns a typed
  attribute \<open>a\<close>, and \<^verbatim>\<open>formatFromDynamoItem(a)\<close> is \<^verbatim>\<open>{}\<close>. When \<open>s\<close> is not empty,
  decoding the record \<^verbatim>\<open>{k: a}\<close> gives the record \<^verbatim>\<open>{k: s}\<close>, for every field name
  \<open>k\<close> other than \<^verbatim>\<open>__proto__\<close>. For the field name \<^verbatim>\<open>__proto__\<close> the assignment
  reaches the setter of \<^verbatim>\<open>Object.prototype\<close>, which ignores a string, and the result is
  \<^verbatim>\<open>{}\<close>.
\<close>

theorem formatFromDynamoItem_string_field:
  "\<exists>a. formatToDynamoItem (Str s) = Inr a \<and>
        formatFromDynamoItem a = Inr (Value (Obj [])) \<and>
        (s \<noteq> [] \<and> k \<noteq> ''__proto__'' \<longrightarrow>
           formatFromDynamoItem (Obj [(k, a)]) = Inr (Value (Obj [(k, Str s)]))) \<and>
        (k = ''__proto__'' \<longrightarrow> formatFromDynamoItem (Obj [(k, a)]) = Inr (Value (Obj [])))"
proof -
  have "formatFromDynamoItem (Obj [(''__proto__'', Obj [(''S'', Str s)])]) = Inr (Value (Obj []))"
    by (cases "s = []") (simp_all add: transform_callback_def assign_def)
  then show ?thesis
    by (simp add: formatToDynamoItem_def transform_callback_Str transform_callback_S assign_def)
qed

theorem formatFromDynamoItem_string_field_witness:
  "\<exists>a. formatToDynamoItem (Str ''bob'') = Inr a \<and>
        formatFromDynamoItem a = Inr (Value (Obj [])) \<and>
        ''bob'' \<noteq> [] \<and> ''name'' \<noteq> ''__proto__'' \<and>
        formatFromDynamoItem (Obj [(''name'', a)]) = Inr (Value (Obj [(''name'', Str ''bob'')])) \<and>
        formatFromDynamoItem (Obj [(''__proto__'', a)]) = Inr (Value (Obj []))"
  using formatFromDynamoItem_string_field [of "''bob''" "''name''"]
        formatFromDynamoItem_string_field [of "''bob''" "''__proto__''"]
  by auto





end
